theory Spec2Isabelle
  imports Main
begin

section \<open>Python strings\<close>

text \<open>
  A Python 3 \<open>str\<close> is a sequence of Unicode code points; \<open>len\<close>, slicing and
  \<open>replace\<close> count code points. A string is modelled as the list of its code points,
  each a natural number. \<open>ustr\<close> turns an ASCII literal into such a list.
\<close>

type_synonym ustring = "nat list"

definition ustr :: "string \<Rightarrow> ustring" where
  "ustr s = map of_char s"

text \<open>
  \<open>str.strip()\<close> with no argument removes leading and trailing whitespace, where
  whitespace is what \<open>str.isspace\<close> accepts: the code points below.
\<close>

definition py_isspace :: "nat \<Rightarrow> bool" where
  "py_isspace c \<longleftrightarrow>
     (9 \<le> c \<and> c \<le> 13) \<or> (28 \<le> c \<and> c \<le> 32) \<or> c = 133 \<or> c = 160 \<or> c = 5760 \<or>
     (8192 \<le> c \<and> c \<le> 8202) \<or> c = 8232 \<or> c = 8233 \<or> c = 8239 \<or> c = 8287 \<or>
     c = 12288"

definition py_lstrip :: "ustring \<Rightarrow> ustring" where
  "py_lstrip s = dropWhile py_isspace s"

definition py_rstrip :: "ustring \<Rightarrow> ustring" where
  "py_rstrip s = rev (dropWhile py_isspace (rev s))"

definition py_strip :: "ustring \<Rightarrow> ustring" where
  "py_strip s = py_rstrip (py_lstrip s)"

text \<open>
  \<open>s.replace(old, new)\<close> where \<open>old\<close> is a single character: every occurrence of
  the character is replaced by the string \<open>new\<close>, left to right.
\<close>

definition py_replace :: "nat \<Rightarrow> ustring \<Rightarrow> ustring \<Rightarrow> ustring" where
  "py_replace old new s = concat (map (\<lambda>c. if c = old then new else [c]) s)"

text \<open>
  \<open>s.split(sep)\<close> for a single-character separator: the pieces between the
  separators, in order; the result always has at least one piece.
\<close>

fun py_split :: "nat \<Rightarrow> ustring \<Rightarrow> ustring list" where
  "py_split sep [] = [[]]"
| "py_split sep (c # cs) =
     (if c = sep then [] # py_split sep cs
      else (case py_split sep cs of
              [] \<Rightarrow> [[c]]
            | p # ps \<Rightarrow> (c # p) # ps))"

text \<open>\<open>sep.join(parts)\<close>.\<close>

fun py_join :: "ustring \<Rightarrow> ustring list \<Rightarrow> ustring" where
  "py_join sep [] = []"
| "py_join sep [p] = p"
| "py_join sep (p # q # ps) = p @ sep @ py_join sep (q # ps)"

text \<open>\<open>needle in haystack\<close> on strings.\<close>

fun py_startswith :: "ustring \<Rightarrow> ustring \<Rightarrow> bool" where
  "py_startswith s [] = True"
| "py_startswith [] (p # ps) = False"
| "py_startswith (c # cs) (p # ps) = (c = p \<and> py_startswith cs ps)"

fun py_in :: "ustring \<Rightarrow> ustring \<Rightarrow> bool" where
  "py_in needle [] = (needle = [])"
| "py_in needle (c # cs) = (py_startswith (c # cs) needle \<or> py_in needle cs)"

text \<open>\<open>str(n)\<close> for an integer: decimal digits, with a minus sign when negative.\<close>

fun str_nat :: "nat \<Rightarrow> ustring" where
  "str_nat n = (if n < 10 then [48 + n] else str_nat (n div 10) @ [48 + n mod 10])"

definition py_str :: "int \<Rightarrow> ustring" where
  "py_str i = (if i < 0 then 45 # str_nat (nat (- i)) else str_nat (nat i))"

text \<open>
  \<open>s.zfill(width)\<close>: zeros are inserted on the left up to \<open>width\<close> characters,
  after a leading sign if there is one; a string already that long is unchanged.
\<close>

definition py_zfill :: "nat \<Rightarrow> ustring \<Rightarrow> ustring" where
  "py_zfill width s =
     (if width \<le> length s then s
      else (case s of
              c # cs \<Rightarrow>
                (if c = 43 \<or> c = 45 then c # replicate (width - length s) 48 @ cs
                 else replicate (width - length s) 48 @ s)
            | [] \<Rightarrow> replicate width 48))"

section \<open>The filename sanitizer\<close>

text \<open>
  \<open>sanitize_filename\<close> (downloader.py, lines 268--275): nine replacements in the
  source's order, then the first 150 characters, then \<open>strip()\<close>.
  The code points: \<open>/\<close> 47, backslash 92, \<open>:\<close> 58, \<open>*\<close> 42, \<open>?\<close> 63,
  double quote 34, \<open><\<close> 60, \<open>>\<close> 62, \<open>|\<close> 124; \<open>-\<close> 45, space 32,
  \<open>_\<close> 95, single quote 39.
\<close>

definition sanitize_filename :: "ustring \<Rightarrow> ustring" where
  "sanitize_filename name =
     (let name1 = py_replace 42 [95] (py_replace 58 [32, 45]
                    (py_replace 92 [45] (py_replace 47 [45] name)));
          name2 = py_replace 124 [95] (py_replace 62 [95] (py_replace 60 [95]
                    (py_replace 34 [39] (py_replace 63 [] name1))))
      in py_strip (take 150 name2))"

text \<open>The characters the specification forbids in a sanitized name.\<close>

definition forbidden_chars :: "nat set" where
  "forbidden_chars = {47, 92, 58, 42, 63, 34, 60, 62, 124}"


text \<open>
  \<open>os.path.join\<close> and \<open>os.path.dirname\<close> as \<open>posixpath\<close> defines them
  (the separator is \<open>/\<close>, code point 47): a component that starts with the separator
  replaces what came before it; otherwise it is appended, after a separator unless the
  path so far is empty or already ends with one.
\<close>

fun path_join :: "ustring \<Rightarrow> ustring list \<Rightarrow> ustring" where
  "path_join path [] = path"
| "path_join path (b # bs) =
     path_join (if py_startswith b [47] then b
                else if path = [] \<or> last path = 47 then path @ b
                else path @ [47] @ b) bs"

definition path_dirname :: "ustring \<Rightarrow> ustring" where
  "path_dirname p =
     (let head = rev (dropWhile (\<lambda>c. c \<noteq> 47) (rev p))
      in if head \<noteq> [] \<and> list_ex (\<lambda>c. c \<noteq> 47) head
         then rev (dropWhile (\<lambda>c. c = 47) (rev head))
         else head)"

text \<open>Truth value of an optional string: \<open>None\<close> and the empty string are false.\<close>

fun truthy :: "ustring option \<Rightarrow> bool" where
  "truthy None = False"
| "truthy (Some s) = (s \<noteq> [])"

section \<open>Data of the catalog and of the external tool\<close>

text \<open>
  The catalog's JSON objects, with the keys the code reads. A field is \<open>None\<close> when
  the key is absent; \<open>pg_next\<close>, a key of every page, is \<open>None\<close> when its value
  is null. \<open>tr_album = None\<close> is the simplified track object of an album listing,
  which has no \<open>album\<close> key.
\<close>

record artist =
  ar_name :: "ustring option"

record album =
  al_name :: "ustring option"

record track =
  tr_id :: "ustring option"
  tr_name :: "ustring option"
  tr_artists :: "artist list option"
  tr_album :: "album option"
  tr_track_number :: "int option"

record page =
  pg_items :: "track list"
  pg_next :: "ustring option"

text \<open>What \<open>subprocess.run(..., capture_output=True, text=True)\<close> returns.\<close>

record completed_process =
  returncode :: int
  stdout :: ustring
  stderr :: ustring

text \<open>
  The exceptions (subclasses of \<open>Exception\<close>) the collaborators can raise.
  \<open>IOError\<close> is \<open>OSError\<close> in Python 3, and \<open>FileNotFoundError\<close> and
  \<open>PermissionError\<close> are subclasses of it.
\<close>

datatype exn =
  SpotifyException | FileNotFoundError | PermissionError | OSError
  | KeyError | TypeError | OtherException

definition is_IOError :: "exn \<Rightarrow> bool" where
  "is_IOError e \<longleftrightarrow> e = FileNotFoundError \<or> e = PermissionError \<or> e = OSError"

section \<open>The outside world\<close>

text \<open>
  Every call the code makes to a collaborator (the catalog client, the external tool, the
  filesystem) is an event; the history is the list of the events so far, oldest first.
  The environment answers each call, and its answer may depend on the history, so that
  the same call can be answered differently at different times. An answer \<open>Inl e\<close>
  is the call raising \<open>e\<close>. Every call is answered: a call that never comes back
  (\<open>subprocess.run\<close> is given no timeout, so the source can wait for the external tool
  for ever) is not modelled, and what is proved of a run is proved of a run whose calls
  have come back. Console output is not modelled.
\<close>

datatype event =
  SpTrack ustring
  | SpAlbum ustring
  | SpAlbumTracks ustring
  | SpNext page
  | SubprocessRun "ustring list"
  | MakeDirs ustring
  | OpenWrite ustring ustring
  | PathExists ustring
  | GetVideoInfo ustring ustring

type_synonym history = "event list"

record env =
  client_id :: "ustring option"
  client_secret :: "ustring option"
  spotipy_installed :: bool
  sp_track :: "history \<Rightarrow> ustring \<Rightarrow> exn + track option"
  sp_album :: "history \<Rightarrow> ustring \<Rightarrow> exn + album option"
  sp_album_tracks :: "history \<Rightarrow> ustring \<Rightarrow> exn + page option"
  sp_next :: "history \<Rightarrow> page \<Rightarrow> exn + page option"
  subprocess_run :: "history \<Rightarrow> ustring list \<Rightarrow> exn + completed_process"
  os_makedirs :: "history \<Rightarrow> ustring \<Rightarrow> exn + unit"
  open_write :: "history \<Rightarrow> ustring \<Rightarrow> ustring \<Rightarrow> exn + unit"
  os_path_exists :: "history \<Rightarrow> ustring \<Rightarrow> bool"
  get_video_info :: "history \<Rightarrow> ustring \<Rightarrow> ustring \<Rightarrow> ustring option \<times> ustring option"

text \<open>
  \<open>os_makedirs\<close> is \<open>os.makedirs(path, exist_ok=True)\<close>; \<open>open_write env h path text\<close>
  is \<open>open(path, 'w')\<close> followed by the write of \<open>text\<close>. \<open>get_video_info\<close>
  (downloader.py, lines 37--118) is used by the simulation branch of \<open>download_audio\<close>
  only; it handles its own exceptions and returns a pair of a path and a title, or
  \<open>(None, None)\<close>. Its result is taken from the environment.
\<close>

section \<open>The fetch step\<close>

text \<open>
  Lines 163--166 and 529--532: the loop over \<open>result.stdout.strip().split('\n')\<close>
  that keeps the stripped text of the last line with something other than whitespace on
  it; \<open>None\<close> when there is no such line.
\<close>

definition final_filepath_of :: "ustring \<Rightarrow> ustring option" where
  "final_filepath_of out =
     foldl (\<lambda>final_filepath line.
              if py_strip line \<noteq> [] then Some (py_strip line) else final_filepath)
       None (py_split 10 (py_strip out))"

text \<open>
  \<open>download_youtube_track_for_spotify\<close> (lines 475--567). The result is the new
  history and either the exception that leaves the function or the returned value: a path
  or \<open>None\<close>. In the real branch both handlers (lines 562--567) return \<open>None\<close>.
\<close>

definition spotify_yt_dlp_command :: "ustring \<Rightarrow> ustring \<Rightarrow> ustring list" where
  "spotify_yt_dlp_command output_template_for_yt_dlp youtube_url =
     [ustr ''yt-dlp'', ustr ''-x'', ustr ''--audio-format'', ustr ''mp3'',
      ustr ''--audio-quality'', ustr ''0'', ustr ''-o'', output_template_for_yt_dlp,
      ustr ''--print'', ustr ''after_move:filepath'', ustr ''--no-simulate'',
      ustr ''--no-playlist'', ustr ''--no-warnings'', youtube_url]"

definition simulated_file_text :: "ustring \<Rightarrow> ustring \<Rightarrow> ustring" where
  "simulated_file_text track_filename_stem youtube_url =
     ustr ''This is a simulated audio file for '' @ [39] @ track_filename_stem @ [39, 46, 10] @
     ustr ''Original YouTube URL: '' @ youtube_url @ [10]"

definition download_youtube_track_for_spotify ::
  "env \<Rightarrow> history \<Rightarrow> ustring \<Rightarrow> ustring \<Rightarrow> ustring \<Rightarrow> ustring \<Rightarrow> ustring \<Rightarrow> bool
     \<Rightarrow> history \<times> (exn + ustring option)" where
  "download_youtube_track_for_spotify env h youtube_url base_dl_path artist_name album_name
       track_filename_stem simulate_only =
     (let specific_song_dir = path_join base_dl_path [ustr ''Music'', artist_name, album_name];
          h1 = h @ [MakeDirs specific_song_dir]
      in case os_makedirs env h specific_song_dir of
           Inl e \<Rightarrow> (h1, Inl e)
         | Inr _ \<Rightarrow>
             (let output_template_for_yt_dlp =
                    path_join specific_song_dir [track_filename_stem @ ustr ''.%(ext)s'']
              in if simulate_only then
                   (let simulated_final_path =
                          path_join specific_song_dir [track_filename_stem @ ustr ''.mp3''];
                        text = simulated_file_text track_filename_stem youtube_url;
                        h2 = h1 @ [OpenWrite simulated_final_path text]
                    in case open_write env h1 simulated_final_path text of
                         Inl e \<Rightarrow>
                           (if is_IOError e then (h2, Inr (Some simulated_final_path))
                            else (h2, Inl e))
                       | Inr _ \<Rightarrow> (h2, Inr (Some simulated_final_path)))
                 else
                   (let yt_dlp_command =
                          spotify_yt_dlp_command output_template_for_yt_dlp youtube_url;
                        h2 = h1 @ [SubprocessRun yt_dlp_command]
                    in case subprocess_run env h1 yt_dlp_command of
                         Inl e \<Rightarrow> (h2, Inr None)
                       | Inr result \<Rightarrow>
                           (if returncode result = 0 then
                              (case final_filepath_of (stdout result) of
                                 None \<Rightarrow> (h2, Inr None)
                               | Some final_filepath \<Rightarrow>
                                   (if final_filepath \<noteq> [] then
                                      (if os_path_exists env h2 final_filepath
                                       then (h2 @ [PathExists final_filepath],
                                             Inr (Some final_filepath))
                                       else (h2 @ [PathExists final_filepath], Inr None))
                                    else (h2, Inr None)))
                            else (h2, Inr None)))))"

text \<open>
  \<open>download_audio\<close> (lines 121--204), the function for a direct YouTube URL. Nothing
  in it handles an exception of \<open>os.makedirs\<close> or of the write of the simulated file;
  the real branch is the one of the function above, with another output template and
  without \<open>--no-warnings\<close>.
\<close>

definition audio_yt_dlp_command :: "ustring \<Rightarrow> ustring \<Rightarrow> ustring list" where
  "audio_yt_dlp_command output_template youtube_url =
     [ustr ''yt-dlp'', ustr ''-x'', ustr ''--audio-format'', ustr ''mp3'',
      ustr ''--audio-quality'', ustr ''0'', ustr ''-o'', output_template,
      ustr ''--print'', ustr ''after_move:filepath'', ustr ''--no-simulate'',
      ustr ''--no-playlist'', youtube_url]"

definition download_audio ::
  "env \<Rightarrow> history \<Rightarrow> ustring \<Rightarrow> ustring \<Rightarrow> bool \<Rightarrow> history \<times> (exn + ustring option)" where
  "download_audio env h youtube_url output_path simulate_only =
     (let music_dir = path_join output_path [ustr ''Music''];
          h1 = h @ [MakeDirs music_dir]
      in case os_makedirs env h music_dir of
           Inl e \<Rightarrow> (h1, Inl e)
         | Inr _ \<Rightarrow>
             (let output_template = path_join music_dir [ustr ''%(title)s.%(ext)s'']
              in if simulate_only then
                   (let h2 = h1 @ [GetVideoInfo youtube_url output_template]
                    in case get_video_info env h1 youtube_url output_template of
                         (Some simulated_filepath, Some title) \<Rightarrow>
                           (if simulated_filepath \<noteq> [] \<and> title \<noteq> [] then
                              (let h3 = h2 @ [MakeDirs (path_dirname simulated_filepath)]
                               in case os_makedirs env h2 (path_dirname simulated_filepath) of
                                    Inl e \<Rightarrow> (h3, Inl e)
                                  | Inr _ \<Rightarrow>
                                      (let text = ustr ''This is a simulated audio file for '' @ [39]
                                                    @ title @ [39, 46, 10] @ ustr ''URL: ''
                                                    @ youtube_url @ [10];
                                           h4 = h3 @ [OpenWrite simulated_filepath text]
                                       in case open_write env h3 simulated_filepath text of
                                            Inl e \<Rightarrow> (h4, Inl e)
                                          | Inr _ \<Rightarrow> (h4, Inr (Some simulated_filepath))))
                            else (h2, Inr None))
                       | _ \<Rightarrow> (h2, Inr None))
                 else
                   (let yt_dlp_command = audio_yt_dlp_command output_template youtube_url;
                        h2 = h1 @ [SubprocessRun yt_dlp_command]
                    in case subprocess_run env h1 yt_dlp_command of
                         Inl e \<Rightarrow> (h2, Inr None)
                       | Inr result \<Rightarrow>
                           (if returncode result = 0 then
                              (case final_filepath_of (stdout result) of
                                 None \<Rightarrow> (h2, Inr None)
                               | Some final_filepath \<Rightarrow>
                                   (if final_filepath \<noteq> [] then
                                      (if os_path_exists env h2 final_filepath
                                       then (h2 @ [PathExists final_filepath],
                                             Inr (Some final_filepath))
                                       else (h2 @ [PathExists final_filepath], Inr None))
                                    else (h2, Inr None)))
                            else (h2, Inr None)))))"


section \<open>The Spotify flow\<close>

text \<open>
  The values \<open>process_spotify_link\<close> computes for one track (lines 367--397 and 465).
\<close>

definition track_name_of :: "track \<Rightarrow> ustring" where
  "track_name_of track_item =
     (case tr_name track_item of None \<Rightarrow> ustr ''Unknown Track'' | Some n \<Rightarrow> n)"

fun named_artists :: "artist list \<Rightarrow> ustring list" where
  "named_artists [] = []"
| "named_artists (a # as) =
     (if truthy (ar_name a) then (case ar_name a of Some n \<Rightarrow> n # named_artists as
                                  | None \<Rightarrow> named_artists as)
      else named_artists as)"

definition artist_names_of :: "track \<Rightarrow> ustring" where
  "artist_names_of track_item =
     (let artists = (case tr_artists track_item of None \<Rightarrow> [] | Some as \<Rightarrow> as);
          artist_names = py_join (ustr '', '') (named_artists artists)
      in if artist_names = [] then ustr ''Unknown Artist'' else artist_names)"

definition album_name_of :: "track \<Rightarrow> ustring" where
  "album_name_of track_item =
     (case tr_album track_item of
        None \<Rightarrow> ustr ''Unknown Album''
      | Some al \<Rightarrow>
          (case al_name al of
             None \<Rightarrow> ustr ''Unknown Album''
           | Some n \<Rightarrow> if n \<noteq> [] then n else ustr ''Unknown Album''))"

definition track_number_of :: "track \<Rightarrow> int" where
  "track_number_of track_item =
     (case tr_track_number track_item of None \<Rightarrow> 1 | Some n \<Rightarrow> n)"

text \<open>
  Line 383: \<open>sanitize_filename(artist_names.split(',')[0])\<close>. The index 0 is in range:
  \<open>py_split\<close> never returns the empty list (lemma \<open>py_split_not_Nil\<close>).
\<close>

definition s_artist_of :: "track \<Rightarrow> ustring" where
  "s_artist_of track_item = sanitize_filename (hd (py_split 44 (artist_names_of track_item)))"

definition s_album_of :: "track \<Rightarrow> ustring" where
  "s_album_of track_item = sanitize_filename (album_name_of track_item)"

definition search_query_of :: "track \<Rightarrow> ustring" where
  "search_query_of track_item =
     track_name_of track_item @ [32] @ artist_names_of track_item @ ustr '' audio''"

definition track_filename_stem_of :: "track \<Rightarrow> ustring" where
  "track_filename_stem_of track_item =
     py_zfill 2 (py_str (track_number_of track_item)) @ ustr '' - ''
       @ sanitize_filename (track_name_of track_item)"

definition get_yt_url_command :: "ustring \<Rightarrow> ustring list" where
  "get_yt_url_command search_query =
     [ustr ''yt-dlp'', ustr ''--skip-download'', ustr ''--no-warnings'', ustr ''--print'',
      ustr ''webpage_url'', ustr ''ytsearch1:'' @ search_query]"

text \<open>
  The source keeps no value for what became of an item: it prints a message and goes on.
  The model names the way each iteration of the loop (lines 347--467) ended:
  \<open>MissingId\<close> (line 364), \<open>NoFullDetails\<close> (line 361), \<open>NoYoutubeVideo\<close>
  (line 421, the specification's LocatorMiss) and \<open>DownloadReturned r\<close>, where \<open>r\<close> is
  what \<open>download_youtube_track_for_spotify\<close> returned (line 460; the source drops it).
\<close>

datatype item_outcome =
  MissingId | NoFullDetails | NoYoutubeVideo | DownloadReturned "ustring option"

text \<open>
  Lines 353--364: a track object without the \<open>album\<close> key is replaced by the full
  object of its identifier. The result is an exception, the end of the iteration, or the
  track object the rest of the iteration works on.
\<close>

definition full_track_item ::
  "env \<Rightarrow> history \<Rightarrow> track \<Rightarrow> history \<times> (exn + (item_outcome + track))" where
  "full_track_item env h track_item =
     (if tr_album track_item = None then
        (if truthy (tr_id track_item) then
           (case tr_id track_item of
              None \<Rightarrow> (h, Inr (Inl MissingId))
            | Some i \<Rightarrow>
                (case sp_track env h i of
                   Inl e \<Rightarrow> (h @ [SpTrack i], Inl e)
                 | Inr None \<Rightarrow> (h @ [SpTrack i], Inr (Inl NoFullDetails))
                 | Inr (Some track_item_full) \<Rightarrow> (h @ [SpTrack i], Inr (Inr track_item_full))))
         else (h, Inr (Inl MissingId)))
      else (h, Inr (Inr track_item)))"

text \<open>
  Lines 367--467: the search on YouTube, the directory of the track and the download.
  Nothing in the loop handles an exception of \<open>subprocess.run\<close> (line 413), of
  \<open>os.makedirs\<close> (line 437) or one that leaves the download function: it reaches the
  handlers of lines 469--472, outside the loop.
\<close>

definition process_full_track ::
  "env \<Rightarrow> history \<Rightarrow> ustring \<Rightarrow> bool \<Rightarrow> track \<Rightarrow> history \<times> (exn + item_outcome)" where
  "process_full_track env h base_output_path simulate_only track_item =
     (let s_artist = s_artist_of track_item;
          s_album = s_album_of track_item;
          search_command = get_yt_url_command (search_query_of track_item);
          h1 = h @ [SubprocessRun search_command]
      in case subprocess_run env h search_command of
           Inl e \<Rightarrow> (h1, Inl e)
         | Inr yt_url_result \<Rightarrow>
             (if returncode yt_url_result = 0 \<and> py_strip (stdout yt_url_result) \<noteq> [] then
                (let youtube_video_url = hd (py_split 10 (py_strip (stdout yt_url_result)));
                     track_specific_music_dir =
                       path_join base_output_path [ustr ''Music'', s_artist, s_album];
                     h2 = h1 @ [MakeDirs track_specific_music_dir]
                 in case os_makedirs env h1 track_specific_music_dir of
                      Inl e \<Rightarrow> (h2, Inl e)
                    | Inr _ \<Rightarrow>
                        (case download_youtube_track_for_spotify env h2 youtube_video_url
                                base_output_path s_artist s_album
                                (track_filename_stem_of track_item) simulate_only of
                           (h3, Inl e) \<Rightarrow> (h3, Inl e)
                         | (h3, Inr r) \<Rightarrow> (h3, Inr (DownloadReturned r))))
              else (h1, Inr NoYoutubeVideo)))"

definition process_track_item ::
  "env \<Rightarrow> history \<Rightarrow> ustring \<Rightarrow> bool \<Rightarrow> track \<Rightarrow> history \<times> (exn + item_outcome)" where
  "process_track_item env h base_output_path simulate_only track_item =
     (case full_track_item env h track_item of
        (h1, Inl e) \<Rightarrow> (h1, Inl e)
      | (h1, Inr (Inl ended)) \<Rightarrow> (h1, Inr ended)
      | (h1, Inr (Inr track_item')) \<Rightarrow>
          process_full_track env h1 base_output_path simulate_only track_item')"

text \<open>
  The loop of line 347. The result is the history, the outcomes of the iterations that
  ended, in order, and the exception that ended the loop, if one did.
\<close>

fun process_tracks ::
  "env \<Rightarrow> history \<Rightarrow> ustring \<Rightarrow> bool \<Rightarrow> track list
     \<Rightarrow> history \<times> item_outcome list \<times> exn option" where
  "process_tracks env h base_output_path simulate_only [] = (h, [], None)"
| "process_tracks env h base_output_path simulate_only (track_item # rest) =
     (case process_track_item env h base_output_path simulate_only track_item of
        (h1, Inl e) \<Rightarrow> (h1, [], Some e)
      | (h1, Inr outcome) \<Rightarrow>
          (case process_tracks env h1 base_output_path simulate_only rest of
             (h2, outcomes, raised) \<Rightarrow> (h2, outcome # outcomes, raised)))"

text \<open>
  Lines 330--333: the loop over the pages of an album's track listing. The catalog
  decides how many pages there are, so the loop need not end: not returning is the value
  \<open>None\<close>. When \<open>sp.next\<close> answers \<open>None\<close>, the test \<open>results['next']\<close> of the
  next round raises \<open>TypeError\<close>.
\<close>

partial_function (option) album_next_pages ::
  "env \<Rightarrow> history \<Rightarrow> page \<Rightarrow> track list \<Rightarrow> (history \<times> (exn + track list)) option" where
  [code]: "album_next_pages env h results tracks_to_download =
     (if truthy (pg_next results) then
        (case sp_next env h results of
           Inl e \<Rightarrow> Some (h @ [SpNext results], Inl e)
         | Inr None \<Rightarrow> Some (h @ [SpNext results], Inl TypeError)
         | Inr (Some results') \<Rightarrow>
             album_next_pages env (h @ [SpNext results]) results'
               (if pg_items results' \<noteq> [] then tracks_to_download @ pg_items results'
                else tracks_to_download))
      else Some (h, Inr tracks_to_download))"

text \<open>
  Lines 306--339: the tracks of the reference. \<open>Inr None\<close> is one of the early
  \<open>return\<close>s. Line 321 reads \<open>album_info['name']\<close>, which raises \<open>KeyError\<close> when the
  key is absent.
\<close>

definition album_tracks_to_download ::
  "env \<Rightarrow> history \<Rightarrow> ustring \<Rightarrow> (history \<times> (exn + track list option)) option" where
  "album_tracks_to_download env h spotify_url =
     (let h1 = h @ [SpAlbum spotify_url];
          h2 = h1 @ [SpAlbumTracks spotify_url]
      in case sp_album env h spotify_url of
           Inl e \<Rightarrow> Some (h1, Inl e)
         | Inr None \<Rightarrow> Some (h1, Inr None)
         | Inr (Some album_info) \<Rightarrow>
             (case al_name album_info of
                None \<Rightarrow> Some (h1, Inl KeyError)
              | Some _ \<Rightarrow>
                  (case sp_album_tracks env h1 spotify_url of
                     Inl e \<Rightarrow> Some (h2, Inl e)
                   | Inr None \<Rightarrow> Some (h2, Inr None)
                   | Inr (Some results) \<Rightarrow>
                       (case album_next_pages env h2 results (pg_items results) of
                          None \<Rightarrow> None
                        | Some (h3, Inl e) \<Rightarrow> Some (h3, Inl e)
                        | Some (h3, Inr tracks) \<Rightarrow> Some (h3, Inr (Some tracks))))))"

definition tracks_to_download ::
  "env \<Rightarrow> history \<Rightarrow> ustring \<Rightarrow> (history \<times> (exn + track list option)) option" where
  "tracks_to_download env h spotify_url =
     (if py_in (ustr ''/track/'') spotify_url then
        (case sp_track env h spotify_url of
           Inl e \<Rightarrow> Some (h @ [SpTrack spotify_url], Inl e)
         | Inr None \<Rightarrow> Some (h @ [SpTrack spotify_url], Inr None)
         | Inr (Some track_info) \<Rightarrow> Some (h @ [SpTrack spotify_url], Inr (Some [track_info])))
      else if py_in (ustr ''/album/'') spotify_url then
        album_tracks_to_download env h spotify_url
      else Some (h, Inr None))"

text \<open>
  The Run Report of the specification (section 3): the pairs of a track and its outcome,
  and the counts. The source has no such value.
\<close>

record run_report =
  report_entries :: "(track \<times> item_outcome) list"
  report_succeeded :: nat
  report_failed :: nat

text \<open>
  What a call of \<open>process_spotify_link\<close> comes to: the history, the outcomes of the
  iterations that ended, the exception the handlers of lines 469--472 caught, if any, and
  the value returned to the caller. The function has no \<open>return\<close> with a value.
\<close>

record run =
  run_history :: history
  run_outcomes :: "item_outcome list"
  run_caught :: "exn option"
  run_returned :: "run_report option"

text \<open>
  \<open>process_spotify_link\<close> (lines 277--472). \<open>None\<close> is the call that does not come
  back because the loop over the pages does not end. Each \<open>return\<close> of the source, and
  the end of the body after the loop or after a handler, is a \<open>run\<close> whose returned
  value is \<open>None\<close>. \<open>ffmpeg_available\<close> is a parameter the body never reads.
\<close>

definition process_spotify_link ::
  "env \<Rightarrow> history \<Rightarrow> ustring \<Rightarrow> ustring \<Rightarrow> bool \<Rightarrow> bool \<Rightarrow> run option" where
  "process_spotify_link env h spotify_url base_output_path simulate_only ffmpeg_available =
     (if \<not> (truthy (client_id env) \<and> truthy (client_secret env)) then
        Some \<lparr>run_history = h, run_outcomes = [], run_caught = None, run_returned = None\<rparr>
      else if \<not> spotipy_installed env then
        Some \<lparr>run_history = h, run_outcomes = [], run_caught = None, run_returned = None\<rparr>
      else
        (case tracks_to_download env h spotify_url of
           None \<Rightarrow> None
         | Some (h1, Inl e) \<Rightarrow>
             Some \<lparr>run_history = h1, run_outcomes = [], run_caught = Some e,
                   run_returned = None\<rparr>
         | Some (h1, Inr None) \<Rightarrow>
             Some \<lparr>run_history = h1, run_outcomes = [], run_caught = None,
                   run_returned = None\<rparr>
         | Some (h1, Inr (Some tracks)) \<Rightarrow>
             (if tracks = [] then
                Some \<lparr>run_history = h1, run_outcomes = [], run_caught = None,
                      run_returned = None\<rparr>
              else (case process_tracks env h1 base_output_path simulate_only tracks of
                      (h2, outcomes, caught) \<Rightarrow>
                        Some \<lparr>run_history = h2, run_outcomes = outcomes,
                              run_caught = caught, run_returned = None\<rparr>))))"

section \<open>Definitions used to state and prove the properties\<close>

text \<open>
  The value of \<open>name\<close> after the nine replacements of lines 272--273, before the
  truncation and the \<open>strip()\<close> of line 275.
\<close>

definition after_replacements :: "ustring \<Rightarrow> ustring" where
  "after_replacements name =
     py_replace 124 [95] (py_replace 62 [95] (py_replace 60 [95] (py_replace 34 [39]
       (py_replace 63 [] (py_replace 42 [95] (py_replace 58 [32, 45]
         (py_replace 92 [45] (py_replace 47 [45] name))))))))"

text \<open>
  The specification's prefix of a filename stem: the track number zero-padded to two
  digits. A number below 10 is its digit after a zero; a number from 10 on is its decimal
  digits. \<open>decimal_value\<close> reads a string of digits as a number, and \<open>is_digits\<close>
  holds of a string of the characters \<open>0\<close> to \<open>9\<close> (code points 48 to 57).
\<close>

definition zero_padded_two :: "nat \<Rightarrow> ustring" where
  "zero_padded_two n = (if n < 10 then [48, 48 + n] else str_nat n)"

definition decimal_value :: "ustring \<Rightarrow> nat" where
  "decimal_value s = foldl (\<lambda>v c. 10 * v + (c - 48)) 0 s"

definition is_digits :: "ustring \<Rightarrow> bool" where
  "is_digits s = list_all (\<lambda>c. 48 \<le> c \<and> c \<le> 57) s"

text \<open>
  The lines of a text that hold something other than whitespace, each without its leading
  and trailing whitespace.
\<close>

definition nonblank_lines :: "ustring \<Rightarrow> ustring list" where
  "nonblank_lines s = map py_strip (filter (\<lambda>line. py_strip line \<noteq> []) (py_split 10 s))"

text \<open>
  The specification's reading of the tool's output (section 6): the last non-empty line of
  stdout is the final path. A line counts as non-empty when something other than
  whitespace stands on it, and the path is that line without its surrounding whitespace
  (the \<open>line.strip()\<close> of lines 165--166 and 531--532). The definition works on the
  lines of the output as the tool printed it.
\<close>

definition last_nonempty_line :: "ustring \<Rightarrow> ustring option" where
  "last_nonempty_line out =
     (case filter (\<lambda>line. py_strip line \<noteq> []) (py_split 10 out) of
        [] \<Rightarrow> None
      | line # lines \<Rightarrow> Some (py_strip (last (line # lines))))"

text \<open>
  The pages the catalog offers after the page \<open>results\<close>: \<open>provider_pages env h results qs\<close>
  holds when following the next-page cursors from \<open>results\<close>, with the history \<open>h\<close> at
  the first request, yields exactly the pages \<open>qs\<close>, the last of which has no cursor.
\<close>

fun provider_pages :: "env \<Rightarrow> history \<Rightarrow> page \<Rightarrow> page list \<Rightarrow> bool" where
  "provider_pages env h results [] = (\<not> truthy (pg_next results))"
| "provider_pages env h results (q # qs) =
     (truthy (pg_next results) \<and> sp_next env h results = Inr (Some q) \<and>
      provider_pages env (h @ [SpNext results]) q qs)"

section \<open>A small catalog and some environments\<close>

text \<open>
  An album of three tracks on two pages: an intro without a track number, then the tracks
  1 and 2. The listing holds simplified track objects; the catalog has the full ones.
\<close>

definition ex_track :: "string \<Rightarrow> string \<Rightarrow> int option \<Rightarrow> track" where
  "ex_track i name number =
     \<lparr>tr_id = Some (ustr i), tr_name = Some (ustr name),
      tr_artists = Some [\<lparr>ar_name = Some (ustr ''Band'')\<rparr>],
      tr_album = Some \<lparr>al_name = Some (ustr ''LP'')\<rparr>, tr_track_number = number\<rparr>"

definition ex_thin :: "string \<Rightarrow> track" where
  "ex_thin i =
     \<lparr>tr_id = Some (ustr i), tr_name = Some (ustr i), tr_artists = None, tr_album = None,
      tr_track_number = None\<rparr>"

definition ex_catalog :: "ustring \<Rightarrow> track option" where
  "ex_catalog i =
     (if i = ustr ''i'' then Some (ex_track ''i'' ''Intro'' None)
      else if i = ustr ''a'' then Some (ex_track ''a'' ''Song A'' (Some 1))
      else if i = ustr ''b'' then Some (ex_track ''b'' ''Song B'' (Some 2))
      else None)"

definition ex_page1 :: page where
  "ex_page1 = \<lparr>pg_items = [ex_thin ''i''], pg_next = Some (ustr ''n'')\<rparr>"

definition ex_page2 :: page where
  "ex_page2 = \<lparr>pg_items = [ex_thin ''a'', ex_thin ''b''], pg_next = None\<rparr>"

text \<open>Three answers of the external tool: a search hit, a search miss, a download.\<close>

definition ex_found :: completed_process where
  "ex_found = \<lparr>returncode = 0, stdout = ustr ''u'' @ [10], stderr = []\<rparr>"

definition ex_not_found :: completed_process where
  "ex_not_found = \<lparr>returncode = 1, stdout = [], stderr = ustr ''no''\<rparr>"

definition ex_downloaded :: completed_process where
  "ex_downloaded =
     \<lparr>returncode = 0, stdout = ustr ''[x] 1'' @ [10] @ ustr ''/dl/a.mp3'' @ [10], stderr = []\<rparr>"

text \<open>
  \<open>ex_env\<close>: credentials present, every call succeeds, every search finds the URL
  \<open>u\<close>. The others differ in one answer: the search for track \<open>a\<close> misses (the
  call that follows the lookup of that track in the catalog); the search for track
  \<open>a\<close> cannot be started and \<open>subprocess.run\<close> raises \<open>OSError\<close>; the target
  file cannot be written; the tool downloads to \<open>/dl/a.mp3\<close>.
\<close>

definition ex_env :: env where
  "ex_env =
     \<lparr>client_id = Some (ustr ''id''), client_secret = Some (ustr ''secret''),
      spotipy_installed = True,
      sp_track = (\<lambda>h i. Inr (ex_catalog i)),
      sp_album = (\<lambda>h u. Inr (Some \<lparr>al_name = Some (ustr ''LP'')\<rparr>)),
      sp_album_tracks = (\<lambda>h u. Inr (Some ex_page1)),
      sp_next = (\<lambda>h p. Inr (Some ex_page2)),
      subprocess_run = (\<lambda>h cmd. Inr ex_found),
      os_makedirs = (\<lambda>h p. Inr ()), open_write = (\<lambda>h p t. Inr ()),
      os_path_exists = (\<lambda>h p. True), get_video_info = (\<lambda>h u t. (None, None))\<rparr>"

definition ex_env_miss_second :: env where
  "ex_env_miss_second =
     ex_env\<lparr>subprocess_run :=
              (\<lambda>h cmd. if h \<noteq> [] \<and> last h = SpTrack (ustr ''a'') then Inr ex_not_found
                        else Inr ex_found)\<rparr>"

text \<open>The history when the tracks of the small album have been listed.\<close>

definition ex_history :: history where
  "ex_history =
     [SpAlbum (ustr ''/album/x''), SpAlbumTracks (ustr ''/album/x''), SpNext ex_page1]"

definition ex_env_search_raises :: env where
  "ex_env_search_raises =
     ex_env\<lparr>subprocess_run :=
              (\<lambda>h cmd. if h \<noteq> [] \<and> last h = SpTrack (ustr ''a'') then Inl OSError
                        else Inr ex_found)\<rparr>"

definition ex_env_read_only :: env where
  "ex_env_read_only = ex_env\<lparr>open_write := (\<lambda>h p t. Inl PermissionError)\<rparr>"

definition ex_env_downloads :: env where
  "ex_env_downloads = ex_env\<lparr>subprocess_run := (\<lambda>h cmd. Inr ex_downloaded)\<rparr>"

section \<open>Facts about the string operations\<close>

lemma set_py_replace:
  "set (py_replace old new s) \<subseteq> set new \<union> (set s - {old})"
  by (induction s) (auto simp: py_replace_def)

lemma py_replace_absent:
  "old \<notin> set s \<Longrightarrow> py_replace old new s = s"
  by (induction s) (auto simp: py_replace_def)

lemma in_py_replace_other:
  "c \<notin> set new \<Longrightarrow> c \<noteq> old \<Longrightarrow> c \<in> set (py_replace old new s) \<longleftrightarrow> c \<in> set s"
  by (induction s) (auto simp: py_replace_def)

lemma notin_py_replace_same:
  "c \<notin> set new \<Longrightarrow> c \<notin> set (py_replace c new s)"
  by (induction s) (auto simp: py_replace_def)

lemma set_py_rstrip: "set (py_rstrip s) \<subseteq> set s"
proof -
  have "set (dropWhile py_isspace (rev s)) \<subseteq> set (rev s)"
    by (rule set_dropWhileD [THEN subsetI])
  then show ?thesis by (simp add: py_rstrip_def)
qed

lemma set_py_strip: "set (py_strip s) \<subseteq> set s"
proof -
  have "set (py_lstrip s) \<subseteq> set s"
    unfolding py_lstrip_def by (rule subsetI) (rule set_dropWhileD)
  with set_py_rstrip [of "py_lstrip s"] show ?thesis
    by (auto simp: py_strip_def)
qed

lemma length_py_strip: "length (py_strip s) \<le> length s"
proof -
  have "length (py_rstrip (py_lstrip s)) \<le> length (py_lstrip s)"
    by (simp add: py_rstrip_def length_dropWhile_le [of py_isspace "rev (py_lstrip s)", simplified])
  also have "\<dots> \<le> length s"
    by (simp add: py_lstrip_def length_dropWhile_le)
  finally show ?thesis by (simp add: py_strip_def)
qed

lemma takeWhile_dropWhile_same: "takeWhile P (dropWhile P xs) = []"
  by (induction xs) auto

lemma rstrip_keeps_head:
  "takeWhile py_isspace s = [] \<Longrightarrow> takeWhile py_isspace (py_rstrip s) = []"
proof (cases s)
  case Nil
  then show ?thesis by (simp add: py_rstrip_def)
next
  case (Cons c cs)
  assume "takeWhile py_isspace s = []"
  with Cons have nc: "\<not> py_isspace c" by (auto split: if_splits)
  have "dropWhile py_isspace (rev cs @ [c]) = dropWhile py_isspace (rev cs) @ [c]"
    using nc by (simp add: dropWhile_append)
  then show ?thesis using Cons nc by (simp add: py_rstrip_def)
qed

lemma strip_no_leading: "takeWhile py_isspace (py_strip s) = []"
  by (simp add: py_strip_def py_lstrip_def rstrip_keeps_head takeWhile_dropWhile_same)

lemma strip_no_trailing: "takeWhile py_isspace (rev (py_strip s)) = []"
  by (simp add: py_strip_def py_rstrip_def takeWhile_dropWhile_same)

lemma lstrip_id: "takeWhile py_isspace s = [] \<Longrightarrow> py_lstrip s = s"
  by (cases s) (auto simp: py_lstrip_def split: if_splits)

lemma rstrip_id: "takeWhile py_isspace (rev s) = [] \<Longrightarrow> py_rstrip s = s"
  using lstrip_id [of "rev s"] by (simp add: py_rstrip_def py_lstrip_def)

lemma strip_idem: "py_strip (py_strip s) = py_strip s"
proof -
  have "py_lstrip (py_strip s) = py_strip s"
    by (rule lstrip_id) (rule strip_no_leading)
  moreover have "py_rstrip (py_strip s) = py_strip s"
    by (rule rstrip_id) (rule strip_no_trailing)
  ultimately show ?thesis by (simp add: py_strip_def [of "py_strip s"])
qed

lemma py_strip_Nil: "py_strip [] = []"
  by (simp add: py_strip_def py_lstrip_def py_rstrip_def)

section \<open>Facts about the sanitizer\<close>

lemma sanitize_filename_unfold:
  "sanitize_filename s = py_strip (take 150 (after_replacements s))"
  by (simp add: sanitize_filename_def after_replacements_def Let_def)

lemma after_replacements_clean: "set (after_replacements s) \<inter> forbidden_chars = {}"
  by (simp add: after_replacements_def forbidden_chars_def in_py_replace_other
                notin_py_replace_same)

lemma after_replacements_id: "set s \<inter> forbidden_chars = {} \<Longrightarrow> after_replacements s = s"
  by (simp add: after_replacements_def forbidden_chars_def py_replace_absent)

lemma sanitize_clean: "set (sanitize_filename s) \<inter> forbidden_chars = {}"
proof -
  have "set (sanitize_filename s) \<subseteq> set (after_replacements s)"
    unfolding sanitize_filename_unfold
    using set_py_strip [of "take 150 (after_replacements s)"]
          set_take_subset [of 150 "after_replacements s"]
    by blast
  with after_replacements_clean [of s] show ?thesis by blast
qed

lemma sanitize_length: "length (sanitize_filename s) \<le> 150"
  unfolding sanitize_filename_unfold
  using length_py_strip [of "take 150 (after_replacements s)"] by simp

lemmas string_eval =
  ustr_def py_replace_def py_strip_def py_lstrip_def py_rstrip_def py_isspace_def
  py_str_def py_zfill_def sanitize_filename_def

section \<open>Facts about lines\<close>

lemma py_split_not_Nil: "py_split sep s \<noteq> []"
  by (induction s) (auto split: list.splits)


lemma py_split_snoc:
  "py_split sep (s @ [c]) =
     (if c = sep then py_split sep s @ [[]]
      else butlast (py_split sep s) @ [last (py_split sep s) @ [c]])"
proof (induction s)
  case Nil
  show ?case by simp
next
  case (Cons x s)
  show ?case
  proof (cases "py_split sep s")
    case Nil
    with py_split_not_Nil show ?thesis by blast
  next
    case (Cons p ps)
    with Cons.IH show ?thesis
      by (cases "py_split sep (s @ [c])") (auto split: if_splits)
  qed
qed

lemma py_strip_space_Cons: "py_isspace c \<Longrightarrow> py_strip (c # s) = py_strip s"
  by (simp add: py_strip_def py_lstrip_def)

lemma py_rstrip_space_snoc: "py_isspace c \<Longrightarrow> py_rstrip (s @ [c]) = py_rstrip s"
  by (simp add: py_rstrip_def)

lemma py_strip_space_snoc:
  assumes c: "py_isspace c"
  shows "py_strip (s @ [c]) = py_strip s"
proof (cases "\<forall>x\<in>set s. py_isspace x")
  case True
  with c have "py_lstrip (s @ [c]) = []" "py_lstrip s = []"
    by (simp_all add: py_lstrip_def)
  then show ?thesis by (simp add: py_strip_def)
next
  case False
  then have "py_lstrip (s @ [c]) = py_lstrip s @ [c]"
    by (auto simp: py_lstrip_def dropWhile_append)
  with c show ?thesis by (simp add: py_strip_def py_rstrip_space_snoc)
qed

lemma nonblank_lines_space_Cons:
  "py_isspace c \<Longrightarrow> nonblank_lines (c # s) = nonblank_lines s"
  using py_split_not_Nil [of 10 s]
  by (cases "py_split 10 s")
     (auto simp: nonblank_lines_def py_strip_Nil py_strip_space_Cons)

lemma nonblank_lines_lstrip: "nonblank_lines (py_lstrip s) = nonblank_lines s"
  unfolding py_lstrip_def
  by (induction s) (simp_all add: nonblank_lines_space_Cons)

lemma nonblank_lines_space_snoc:
  assumes c: "py_isspace c"
  shows "nonblank_lines (s @ [c]) = nonblank_lines s"
proof (cases "c = 10")
  case True
  then show ?thesis by (simp add: nonblank_lines_def py_split_snoc py_strip_Nil)
next
  case False
  let ?ls = "py_split 10 s"
  have ls: "butlast ?ls @ [last ?ls] = ?ls"
    using py_split_not_Nil [of 10 s] by simp
  have "nonblank_lines (s @ [c]) =
          map py_strip (filter (\<lambda>line. py_strip line \<noteq> []) (butlast ?ls @ [last ?ls @ [c]]))"
    using False by (simp add: nonblank_lines_def py_split_snoc)
  also have "\<dots> = map py_strip (filter (\<lambda>line. py_strip line \<noteq> []) (butlast ?ls @ [last ?ls]))"
    using c by (simp add: py_strip_space_snoc)
  also have "\<dots> = nonblank_lines s"
    by (simp only: ls nonblank_lines_def)
  finally show ?thesis .
qed

lemma nonblank_lines_rstrip: "nonblank_lines (py_rstrip s) = nonblank_lines s"
proof (induction s rule: rev_induct)
  case Nil
  show ?case by (simp add: py_rstrip_def)
next
  case (snoc x xs)
  show ?case
  proof (cases "py_isspace x")
    case True
    with snoc show ?thesis
      by (simp add: py_rstrip_space_snoc nonblank_lines_space_snoc)
  next
    case False
    then show ?thesis by (simp add: py_rstrip_def)
  qed
qed

lemma nonblank_lines_strip: "nonblank_lines (py_strip s) = nonblank_lines s"
  by (simp add: py_strip_def nonblank_lines_rstrip nonblank_lines_lstrip)

lemma foldl_last_match:
  "foldl (\<lambda>acc x. if P x then Some (f x) else acc) a xs =
     (case filter P xs of [] \<Rightarrow> a | y # ys \<Rightarrow> Some (f (last (y # ys))))"
proof (induction xs rule: rev_induct)
  case Nil
  show ?case by simp
next
  case (snoc x xs)
  show ?case
  proof (cases "P x")
    case True
    obtain y ys where eq: "filter P xs @ [x] = y # ys"
      by (cases "filter P xs @ [x]") auto
    have "last (filter P xs @ [x]) = x" by simp
    with eq have "last (y # ys) = x" by (simp only:)
    with True eq show ?thesis by (simp del: last.simps)
  next
    case False
    with snoc show ?thesis by simp
  qed
qed

lemma last_of_nonblank:
  "(case filter P ls of [] \<Rightarrow> None | y # ys \<Rightarrow> Some (f (last (y # ys)))) =
   (case map f (filter P ls) of [] \<Rightarrow> None | y # ys \<Rightarrow> Some (last (y # ys)))"
  by (cases "filter P ls") (simp_all add: last_map)

lemma final_filepath_of_nonblank:
  "final_filepath_of out =
     (case nonblank_lines out of [] \<Rightarrow> None | y # ys \<Rightarrow> Some (last (y # ys)))"
proof -
  have "final_filepath_of out =
          (case nonblank_lines (py_strip out) of [] \<Rightarrow> None | y # ys \<Rightarrow> Some (last (y # ys)))"
    unfolding final_filepath_of_def foldl_last_match last_of_nonblank nonblank_lines_def ..
  then show ?thesis by (simp only: nonblank_lines_strip)
qed

lemma final_filepath_of_is_last_nonempty_line:
  "final_filepath_of out = last_nonempty_line out"
  unfolding final_filepath_of_nonblank last_nonempty_line_def last_of_nonblank nonblank_lines_def ..

lemma nonblank_lines_nonempty: "l \<in> set (nonblank_lines s) \<Longrightarrow> l \<noteq> []"
  by (auto simp: nonblank_lines_def)

lemma final_filepath_of_not_empty: "final_filepath_of out = Some p \<Longrightarrow> p \<noteq> []"
proof -
  assume a: "final_filepath_of out = Some p"
  then obtain y ys where ls: "nonblank_lines out = y # ys" and p: "p = last (y # ys)"
    by (auto simp: final_filepath_of_nonblank split: list.splits)
  have "last (y # ys) \<in> set (y # ys)" by (rule last_in_set) simp
  with ls p have "p \<in> set (nonblank_lines out)" by simp
  then show ?thesis by (rule nonblank_lines_nonempty)
qed

lemma real_branch_spotify:
  assumes "returncode result = 0" and "final_filepath_of (stdout result) = Some p"
      and "os_makedirs env h (path_join base [ustr ''Music'', artist, album]) = Inr ()"
      and "subprocess_run env (h @ [MakeDirs (path_join base [ustr ''Music'', artist, album])])
             (spotify_yt_dlp_command
                (path_join (path_join base [ustr ''Music'', artist, album])
                   [stem @ ustr ''.%(ext)s'']) url) = Inr result"
  shows "snd (download_youtube_track_for_spotify env h url base artist album stem False) =
           Inr (if os_path_exists env
                     (h @ [MakeDirs (path_join base [ustr ''Music'', artist, album]),
                           SubprocessRun (spotify_yt_dlp_command
                              (path_join (path_join base [ustr ''Music'', artist, album])
                                 [stem @ ustr ''.%(ext)s'']) url)]) p
                then Some p else None)"
  using assms final_filepath_of_not_empty [OF assms(2)]
  by (simp add: download_youtube_track_for_spotify_def Let_def del: path_join.simps)

lemma real_branch_audio:
  assumes "returncode result = 0" and "final_filepath_of (stdout result) = Some p"
      and "os_makedirs env h (path_join base [ustr ''Music'']) = Inr ()"
      and "subprocess_run env (h @ [MakeDirs (path_join base [ustr ''Music''])])
             (audio_yt_dlp_command
                (path_join (path_join base [ustr ''Music'']) [ustr ''%(title)s.%(ext)s''])
                url) = Inr result"
  shows "snd (download_audio env h url base False) =
           Inr (if os_path_exists env
                     (h @ [MakeDirs (path_join base [ustr ''Music'']),
                           SubprocessRun (audio_yt_dlp_command
                              (path_join (path_join base [ustr ''Music''])
                                 [ustr ''%(title)s.%(ext)s'']) url)]) p
                then Some p else None)"
  using assms final_filepath_of_not_empty [OF assms(2)]
  by (simp add: download_audio_def Let_def del: path_join.simps)

section \<open>Facts about the values of a track\<close>

lemmas track_eval =
  ex_track_def track_name_of_def artist_names_of_def album_name_of_def track_number_of_def
  s_artist_of_def s_album_of_def search_query_of_def track_filename_stem_of_def
  get_yt_url_command_def

lemma str_nat_nonempty: "str_nat n \<noteq> []"
  by (subst str_nat.simps) simp

lemma length_str_nat_two: "10 \<le> n \<Longrightarrow> 2 \<le> length (str_nat n)"
proof -
  assume "10 \<le> n"
  then have "str_nat n = str_nat (n div 10) @ [48 + n mod 10]"
    by (subst str_nat.simps) simp
  moreover have "1 \<le> length (str_nat (n div 10))"
    using str_nat_nonempty [of "n div 10"] by (cases "str_nat (n div 10)") simp_all
  ultimately show ?thesis by simp
qed

lemma decimal_value_snoc: "decimal_value (s @ [c]) = 10 * decimal_value s + (c - 48)"
  by (simp add: decimal_value_def)

lemma decimal_value_str_nat: "decimal_value (str_nat n) = n"
proof (induction n rule: str_nat.induct)
  case (1 n)
  show ?case
  proof (cases "n < 10")
    case True
    then show ?thesis by (subst str_nat.simps) (simp add: decimal_value_def)
  next
    case False
    then have "str_nat n = str_nat (n div 10) @ [48 + n mod 10]"
      by (subst str_nat.simps) simp
    with 1 False show ?thesis by (simp add: decimal_value_snoc)
  qed
qed

lemma is_digits_str_nat: "is_digits (str_nat n)"
proof (induction n rule: str_nat.induct)
  case (1 n)
  show ?case
  proof (cases "n < 10")
    case True
    then show ?thesis by (subst str_nat.simps) (simp add: is_digits_def)
  next
    case False
    then have eq: "str_nat n = str_nat (n div 10) @ [48 + n mod 10]"
      by (subst str_nat.simps) simp
    have "n mod 10 < 10" by simp
    then have "48 + n mod 10 \<le> 57" by linarith
    with 1 False show ?thesis unfolding eq by (simp add: is_digits_def)
  qed
qed

lemma zfill_is_zero_padded_two:
  assumes "0 \<le> n"
  shows "py_zfill 2 (py_str n) = zero_padded_two (nat n)"
proof (cases "nat n < 10")
  case True
  with assms show ?thesis
    by (simp add: py_str_def py_zfill_def zero_padded_two_def del: str_nat.simps)
       (simp add: numeral_2_eq_2)
next
  case False
  then have "2 \<le> length (str_nat (nat n))" by (intro length_str_nat_two) simp
  with assms False show ?thesis
    by (simp add: py_str_def py_zfill_def zero_padded_two_def del: str_nat.simps)
qed

lemma zero_padded_two_facts:
  "2 \<le> length (zero_padded_two n) \<and> is_digits (zero_padded_two n) \<and>
   decimal_value (zero_padded_two n) = n"
proof (cases "n < 10")
  case True
  then have "48 + n \<le> 57" by linarith
  with True show ?thesis
    by (simp add: zero_padded_two_def is_digits_def decimal_value_def)
next
  case False
  then show ?thesis
    by (simp add: zero_padded_two_def length_str_nat_two is_digits_str_nat decimal_value_str_nat
             del: str_nat.simps)
qed



section \<open>Facts about the flow\<close>

lemmas env_eval =
  ex_env_def ex_env_miss_second_def ex_env_search_raises_def ex_env_read_only_def
  ex_env_downloads_def
  ex_catalog_def ex_page1_def ex_page2_def ex_thin_def ex_found_def ex_not_found_def
  ex_downloaded_def

lemmas flow_eval =
  process_spotify_link_def process_track_item_def full_track_item_def process_full_track_def
  download_youtube_track_for_spotify_def simulated_file_text_def spotify_yt_dlp_command_def
  is_IOError_def Let_def


lemma album_next_pages_chain:
  "provider_pages env h results qs \<Longrightarrow>
   album_next_pages env h results acc =
     Some (h @ map SpNext (butlast (results # qs)), Inr (acc @ concat (map pg_items qs)))"
proof (induction qs arbitrary: h results acc)
  case Nil
  then show ?case by (subst album_next_pages.simps) simp
next
  case (Cons q qs)
  from Cons.prems have step: "truthy (pg_next results)" "sp_next env h results = Inr (Some q)"
    and rest: "provider_pages env (h @ [SpNext results]) q qs" by simp_all
  show ?case
    by (subst album_next_pages.simps) (simp add: step Cons.IH [OF rest])
qed

lemma ex_pages: "provider_pages ex_env h ex_page1 [ex_page2]"
  by (simp add: ex_env_def ex_page1_def ex_page2_def ustr_def)

lemma ex_album_url:
  "\<not> py_in (ustr ''/track/'') (ustr ''/album/x'')" "py_in (ustr ''/album/'') (ustr ''/album/x'')"
  by (simp_all add: ustr_def)

text \<open>The tracks of the small album, in any of the environments that share its catalog.\<close>

lemma ex_tracks_to_download:
  assumes "sp_album env = sp_album ex_env" "sp_album_tracks env = sp_album_tracks ex_env"
      and "sp_next env = sp_next ex_env"
  shows "tracks_to_download env [] (ustr ''/album/x'') =
     Some ([SpAlbum (ustr ''/album/x''), SpAlbumTracks (ustr ''/album/x''), SpNext ex_page1],
           Inr (Some [ex_thin ''i'', ex_thin ''a'', ex_thin ''b'']))"
proof -
  have "provider_pages env h ex_page1 [ex_page2]" for h
    using ex_pages [of h] assms(3) by simp
  from album_next_pages_chain [OF this, of _ "pg_items ex_page1"]
  show ?thesis
    using ex_album_url assms(1,2)
    by (simp add: tracks_to_download_def album_tracks_to_download_def Let_def ex_env_def)
       (simp add: ex_page1_def ex_page2_def)
qed

lemma ex_batch_simulated:
  "snd (process_tracks ex_env ex_history (ustr ''/dl'') True
          [ex_thin ''i'', ex_thin ''a'', ex_thin ''b'']) =
     ([DownloadReturned (Some (ustr ''/dl/Music/Band/LP/01 - Intro.mp3'')),
       DownloadReturned (Some (ustr ''/dl/Music/Band/LP/01 - Song A.mp3'')),
       DownloadReturned (Some (ustr ''/dl/Music/Band/LP/02 - Song B.mp3''))], None)"
  by (simp add: flow_eval env_eval track_eval string_eval ex_history_def)


lemma ex_album_search_raises:
  "process_tracks ex_env_search_raises ex_history (ustr ''/dl'') True
          [ex_thin ''i'', ex_thin ''a'', ex_thin ''b''] =
     (ex_history @
        [SpTrack (ustr ''i''),
         SubprocessRun (get_yt_url_command (ustr ''Intro Band audio'')),
         MakeDirs (ustr ''/dl/Music/Band/LP''), MakeDirs (ustr ''/dl/Music/Band/LP''),
         OpenWrite (ustr ''/dl/Music/Band/LP/01 - Intro.mp3'')
           (simulated_file_text (ustr ''01 - Intro'') (ustr ''u'')),
         SpTrack (ustr ''a''),
         SubprocessRun (get_yt_url_command (ustr ''Song A Band audio''))],
      [DownloadReturned (Some (ustr ''/dl/Music/Band/LP/01 - Intro.mp3''))],
      Some OSError)"
  by (simp add: flow_eval env_eval track_eval string_eval ex_history_def)

lemma ex_run:
  assumes "client_id env = client_id ex_env" "client_secret env = client_secret ex_env"
      and "spotipy_installed env = spotipy_installed ex_env"
      and "sp_album env = sp_album ex_env" "sp_album_tracks env = sp_album_tracks ex_env"
      and "sp_next env = sp_next ex_env"
  shows "process_spotify_link env [] (ustr ''/album/x'') base sim ff =
           Some \<lparr>run_history =
                    fst (process_tracks env ex_history base sim
                           [ex_thin ''i'', ex_thin ''a'', ex_thin ''b'']),
                 run_outcomes =
                    fst (snd (process_tracks env ex_history base sim
                                [ex_thin ''i'', ex_thin ''a'', ex_thin ''b''])),
                 run_caught =
                    snd (snd (process_tracks env ex_history base sim
                                [ex_thin ''i'', ex_thin ''a'', ex_thin ''b''])),
                 run_returned = None\<rparr>"
proof -
  have "truthy (client_id env)" "truthy (client_secret env)" "spotipy_installed env"
    using assms(1-3) by (simp_all add: ex_env_def ustr_def)
  then show ?thesis
    by (simp add: process_spotify_link_def ex_tracks_to_download [OF assms(4-6)] ex_history_def
                  split: prod.splits del: process_tracks.simps)
qed

section \<open>The properties\<close>

subsection \<open>The sanitizer\<close>

text \<open>
  C8. For every string \<open>s\<close>, \<open>sanitize_filename s\<close> holds none of the characters
  \<open>/ \ : * ? " < > |\<close>, has at most 150 characters, and neither starts nor ends with
  whitespace (the run of whitespace at its start is empty, and so is the one at its end);
  the empty string is sent to the empty string. The function is total: it has a value
  for every string.
\<close>

theorem sanitize_filename_contract:
  "set (sanitize_filename s) \<inter> forbidden_chars = {} \<and>
   length (sanitize_filename s) \<le> 150 \<and>
   takeWhile py_isspace (sanitize_filename s) = [] \<and>
   takeWhile py_isspace (rev (sanitize_filename s)) = [] \<and>
   sanitize_filename [] = []"
proof -
  have "sanitize_filename [] = []"
    by (simp add: sanitize_filename_unfold after_replacements_def py_replace_def py_strip_Nil)
  then show ?thesis
    using sanitize_clean [of s] sanitize_length [of s]
    by (simp add: sanitize_filename_unfold strip_no_leading strip_no_trailing)
qed

text \<open>
  The contract at the name \<open>  a/b:c?  \<close> (two spaces on each side), which is sanitized
  to \<open>a-b -c\<close>.
\<close>

theorem sanitize_filename_contract_witness:
  "sanitize_filename (ustr ''  a/b:c?  '') = ustr ''a-b -c'' \<and>
   set (ustr ''a-b -c'') \<inter> forbidden_chars = {} \<and>
   length (ustr ''a-b -c'') \<le> 150 \<and>
   takeWhile py_isspace (ustr ''a-b -c'') = [] \<and>
   takeWhile py_isspace (rev (ustr ''a-b -c'')) = []"
proof -
  have v: "sanitize_filename (ustr ''  a/b:c?  '') = ustr ''a-b -c''"
    by (simp add: string_eval)
  show ?thesis
    using sanitize_filename_contract [of "ustr ''  a/b:c?  ''"] unfolding v by simp
qed

text \<open>
  C9. Sanitizing is idempotent: for every string \<open>x\<close>, sanitizing the sanitized name
  gives the sanitized name.
\<close>

theorem sanitize_filename_idempotent:
  "sanitize_filename (sanitize_filename x) = sanitize_filename x"
proof -
  let ?t = "sanitize_filename x"
  have "after_replacements ?t = ?t"
    by (rule after_replacements_id) (rule sanitize_clean)
  moreover have "take 150 ?t = ?t"
    using sanitize_length [of x] by simp
  moreover have "py_strip ?t = ?t"
    by (simp add: sanitize_filename_unfold strip_idem)
  ultimately show ?thesis
    by (simp add: sanitize_filename_unfold [of ?t])
qed

text \<open>Idempotence at a name with a colon, whose replacement holds a space.\<close>

theorem sanitize_filename_idempotent_witness:
  "sanitize_filename (ustr ''a: '') = ustr ''a -'' \<and> sanitize_filename (ustr ''a -'') = ustr ''a -''"
proof -
  have v: "sanitize_filename (ustr ''a: '') = ustr ''a -''"
    by (simp add: string_eval)
  show ?thesis
    using sanitize_filename_idempotent [of "ustr ''a: ''"] unfolding v by simp
qed

subsection \<open>File names and folders\<close>

text \<open>
  C2, as amended. The filename stem always carries the numeric prefix. A track without a
  track number is given the number 1 (line 378), so its stem is \<open>01 - \<close> followed by
  the sanitized title. A track with a number \<open>n\<close> that is not negative has the stem
  made of \<open>n\<close> zero-padded to two digits, \<open> - \<close> and the sanitized title, where the
  padded number is a string of at least two digits whose decimal value is \<open>n\<close>.
\<close>

theorem filename_stem_always_numbered:
  "(tr_track_number t = None \<longrightarrow>
      track_filename_stem_of t = ustr ''01 - '' @ sanitize_filename (track_name_of t)) \<and>
   (\<forall>n. tr_track_number t = Some n \<and> 0 \<le> n \<longrightarrow>
      track_filename_stem_of t =
        zero_padded_two (nat n) @ ustr '' - '' @ sanitize_filename (track_name_of t) \<and>
      2 \<le> length (zero_padded_two (nat n)) \<and> is_digits (zero_padded_two (nat n)) \<and>
      decimal_value (zero_padded_two (nat n)) = nat n)"
proof (intro conjI impI allI)
  assume "tr_track_number t = None"
  then show "track_filename_stem_of t = ustr ''01 - '' @ sanitize_filename (track_name_of t)"
    by (simp add: track_filename_stem_of_def track_number_of_def py_str_def py_zfill_def ustr_def)
next
  fix n
  assume n: "tr_track_number t = Some n \<and> 0 \<le> n"
  then show "track_filename_stem_of t =
        zero_padded_two (nat n) @ ustr '' - '' @ sanitize_filename (track_name_of t)"
    by (simp add: track_filename_stem_of_def track_number_of_def zfill_is_zero_padded_two
             del: str_nat.simps)
  show "2 \<le> length (zero_padded_two (nat n))" "is_digits (zero_padded_two (nat n))"
    "decimal_value (zero_padded_two (nat n)) = nat n"
    using zero_padded_two_facts [of "nat n"] by simp_all
qed

text \<open>
  The cases at the intro without a number, at track 2 of the small catalog and at a
  track 100, whose number has three digits.
\<close>

theorem filename_stem_always_numbered_witness:
  "tr_track_number (ex_track ''i'' ''Intro'' None) = None \<and>
   track_filename_stem_of (ex_track ''i'' ''Intro'' None) = ustr ''01 - Intro'' \<and>
   tr_track_number (ex_track ''b'' ''Song B'' (Some 2)) = Some 2 \<and>
   track_filename_stem_of (ex_track ''b'' ''Song B'' (Some 2)) = ustr ''02 - Song B'' \<and>
   tr_track_number (ex_track ''c'' ''T'' (Some 100)) = Some 100 \<and>
   track_filename_stem_of (ex_track ''c'' ''T'' (Some 100)) = ustr ''100 - T''"
proof -
  have a: "tr_track_number (ex_track ''i'' ''Intro'' None) = None"
    and b: "tr_track_number (ex_track ''b'' ''Song B'' (Some 2)) = Some 2 \<and> (0::int) \<le> 2"
    and c: "tr_track_number (ex_track ''c'' ''T'' (Some 100)) = Some 100 \<and> (0::int) \<le> 100"
    by (simp_all add: ex_track_def)
  have names: "sanitize_filename (track_name_of (ex_track ''i'' ''Intro'' None)) = ustr ''Intro''"
    "sanitize_filename (track_name_of (ex_track ''b'' ''Song B'' (Some 2))) = ustr ''Song B''"
    "sanitize_filename (track_name_of (ex_track ''c'' ''T'' (Some 100))) = ustr ''T''"
    by (simp_all add: string_eval track_eval)
  have numbers: "zero_padded_two (nat 2) = ustr ''02''" "zero_padded_two (nat 100) = ustr ''100''"
    by (simp_all add: zero_padded_two_def ustr_def)
  from filename_stem_always_numbered [of "ex_track ''i'' ''Intro'' None"] a
  have "track_filename_stem_of (ex_track ''i'' ''Intro'' None)
          = ustr ''01 - '' @ sanitize_filename (track_name_of (ex_track ''i'' ''Intro'' None))"
    by blast
  moreover from filename_stem_always_numbered [of "ex_track ''b'' ''Song B'' (Some 2)"] b
  have "track_filename_stem_of (ex_track ''b'' ''Song B'' (Some 2))
          = zero_padded_two (nat 2) @ ustr '' - ''
              @ sanitize_filename (track_name_of (ex_track ''b'' ''Song B'' (Some 2)))"
    by blast
  moreover from filename_stem_always_numbered [of "ex_track ''c'' ''T'' (Some 100)"] c
  have "track_filename_stem_of (ex_track ''c'' ''T'' (Some 100))
          = zero_padded_two (nat 100) @ ustr '' - ''
              @ sanitize_filename (track_name_of (ex_track ''c'' ''T'' (Some 100)))"
    by blast
  ultimately show ?thesis
    using a b c unfolding names numbers by (simp add: ustr_def)
qed

text \<open>
  The claim as the specification states it fails: the intro of the small catalog has no
  track number, its sanitized title is \<open>Intro\<close>, and its stem is \<open>01 - Intro\<close>.
\<close>

theorem missing_track_number_counterexample:
  "tr_track_number (ex_track ''i'' ''Intro'' None) = None \<and>
   sanitize_filename (track_name_of (ex_track ''i'' ''Intro'' None)) = ustr ''Intro'' \<and>
   track_filename_stem_of (ex_track ''i'' ''Intro'' None) = ustr ''01 - Intro'' \<and>
   track_filename_stem_of (ex_track ''i'' ''Intro'' None)
     \<noteq> sanitize_filename (track_name_of (ex_track ''i'' ''Intro'' None))"
  by (simp add: string_eval track_eval)



subsection \<open>The fetch step\<close>

text \<open>
  C4. The claim holds of the file: in simulation the function writes
  \<open>simulated_file_text\<close>, which names the filename stem and the URL, to the path of
  the stem with the extension \<open>.mp3\<close> in the folder of the track. It does not hold of
  the result: when the file cannot be written (here \<open>open\<close> raises
  \<open>PermissionError\<close>), the handler of line 508 prints a message and line 510 still
  returns the path, as for a file that was written.
\<close>

theorem simulate_write_failure_returns_path:
  "download_youtube_track_for_spotify ex_env_read_only [] (ustr ''u'') (ustr ''/dl'')
     (ustr ''A'') (ustr ''B'') (ustr ''01 - T'') True =
     ([MakeDirs (ustr ''/dl/Music/A/B''),
       OpenWrite (ustr ''/dl/Music/A/B/01 - T.mp3'')
         (simulated_file_text (ustr ''01 - T'') (ustr ''u''))],
      Inr (Some (ustr ''/dl/Music/A/B/01 - T.mp3'')))"
  by (simp add: download_youtube_track_for_spotify_def ex_env_read_only_def ex_env_def Let_def
                is_IOError_def ustr_def)

text \<open>
  C6. In the real branch of both download functions, when the directory has been made and
  the external tool has returned with exit status 0, and \<open>p\<close> is the last non-empty
  line of its stdout: the function returns \<open>p\<close> when \<open>p\<close> exists on disk at that
  moment, and \<open>None\<close> when it does not.
\<close>

theorem real_mode_exit_zero_path:
  assumes "returncode result = 0"
      and "last_nonempty_line (stdout result) = Some p"
  shows
   "(os_makedirs env h (path_join base [ustr ''Music'', artist, album]) = Inr () \<and>
     subprocess_run env (h @ [MakeDirs (path_join base [ustr ''Music'', artist, album])])
       (spotify_yt_dlp_command
          (path_join (path_join base [ustr ''Music'', artist, album]) [stem @ ustr ''.%(ext)s''])
          url) = Inr result
     \<longrightarrow>
     snd (download_youtube_track_for_spotify env h url base artist album stem False) =
       Inr (if os_path_exists env
                 (h @ [MakeDirs (path_join base [ustr ''Music'', artist, album]),
                       SubprocessRun (spotify_yt_dlp_command
                          (path_join (path_join base [ustr ''Music'', artist, album])
                             [stem @ ustr ''.%(ext)s'']) url)]) p
            then Some p else None)) \<and>
    (os_makedirs env h (path_join base [ustr ''Music'']) = Inr () \<and>
     subprocess_run env (h @ [MakeDirs (path_join base [ustr ''Music''])])
       (audio_yt_dlp_command
          (path_join (path_join base [ustr ''Music'']) [ustr ''%(title)s.%(ext)s'']) url) = Inr result
     \<longrightarrow>
     snd (download_audio env h url base False) =
       Inr (if os_path_exists env
                 (h @ [MakeDirs (path_join base [ustr ''Music'']),
                       SubprocessRun (audio_yt_dlp_command
                          (path_join (path_join base [ustr ''Music''])
                             [ustr ''%(title)s.%(ext)s'']) url)]) p
            then Some p else None))"
proof -
  have fp: "final_filepath_of (stdout result) = Some p"
    using assms(2) by (simp add: final_filepath_of_is_last_nonempty_line)
  show ?thesis
    using real_branch_spotify [OF assms(1) fp] real_branch_audio [OF assms(1) fp]
    by blast
qed

text \<open>
  The tool prints a progress line and then \<open>/dl/a.mp3\<close>, a file that exists: both
  functions return that path.
\<close>

theorem real_mode_exit_zero_path_witness:
  "returncode ex_downloaded = 0 \<and>
   last_nonempty_line (stdout ex_downloaded) = Some (ustr ''/dl/a.mp3'') \<and>
   snd (download_youtube_track_for_spotify ex_env_downloads [] (ustr ''u'') (ustr ''/dl'')
          (ustr ''A'') (ustr ''B'') (ustr ''01 - T'') False) = Inr (Some (ustr ''/dl/a.mp3'')) \<and>
   snd (download_audio ex_env_downloads [] (ustr ''u'') (ustr ''/dl'') False)
     = Inr (Some (ustr ''/dl/a.mp3''))"
proof -
  have rc: "returncode ex_downloaded = 0"
    by (simp add: ex_downloaded_def)
  have line: "last_nonempty_line (stdout ex_downloaded) = Some (ustr ''/dl/a.mp3'')"
    by (simp add: ex_downloaded_def last_nonempty_line_def ustr_def py_strip_def py_lstrip_def
                  py_rstrip_def py_isspace_def)
  have env: "os_makedirs ex_env_downloads = (\<lambda>h p. Inr ())"
       "subprocess_run ex_env_downloads = (\<lambda>h cmd. Inr ex_downloaded)"
       "os_path_exists ex_env_downloads = (\<lambda>h p. True)"
    by (simp_all add: ex_env_downloads_def ex_env_def)
  show ?thesis
    using real_mode_exit_zero_path [OF rc line, of ex_env_downloads "[]" "ustr ''/dl''"
            "ustr ''A''" "ustr ''B''" "ustr ''01 - T''" "ustr ''u''"] rc line
    by (simp add: env)
qed

subsection \<open>The tracks of an album\<close>

text \<open>
  C5. For an album reference whose album and first page of tracks the catalog returns,
  and whose further pages, reached by following the next-page cursors, are \<open>pages\<close>:
  the loop over the pages ends, and the tracks to download are the entries of all the
  pages in order, as many as the pages hold together.
\<close>

theorem album_pagination_complete:
  assumes "\<not> py_in (ustr ''/track/'') url" and "py_in (ustr ''/album/'') url"
      and "sp_album env h url = Inr (Some album_info)" and "al_name album_info = Some name"
      and "sp_album_tracks env (h @ [SpAlbum url]) url = Inr (Some results)"
      and "provider_pages env (h @ [SpAlbum url, SpAlbumTracks url]) results pages"
  shows "tracks_to_download env h url =
           Some (h @ [SpAlbum url, SpAlbumTracks url] @ map SpNext (butlast (results # pages)),
                 Inr (Some (concat (map pg_items (results # pages))))) \<and>
         length (concat (map pg_items (results # pages))) =
           sum_list (map (\<lambda>pg. length (pg_items pg)) (results # pages))"
proof -
  have "tracks_to_download env h url =
          Some (h @ [SpAlbum url, SpAlbumTracks url] @ map SpNext (butlast (results # pages)),
                Inr (Some (pg_items results @ concat (map pg_items pages))))"
    using assms(1-5) album_next_pages_chain [OF assms(6), of "pg_items results"]
    by (simp add: tracks_to_download_def album_tracks_to_download_def Let_def)
  then show ?thesis
    by (simp add: length_concat comp_def)
qed

text \<open>
  The small album: one entry on the first page and two on the second give three tracks.
\<close>

theorem album_pagination_complete_witness:
  "provider_pages ex_env [SpAlbum (ustr ''/album/x''), SpAlbumTracks (ustr ''/album/x'')]
     ex_page1 [ex_page2] \<and>
   tracks_to_download ex_env [] (ustr ''/album/x'') =
     Some ([SpAlbum (ustr ''/album/x''), SpAlbumTracks (ustr ''/album/x''), SpNext ex_page1],
           Inr (Some [ex_thin ''i'', ex_thin ''a'', ex_thin ''b''])) \<and>
   length [ex_thin ''i'', ex_thin ''a'', ex_thin ''b'']
     = length (pg_items ex_page1) + length (pg_items ex_page2)"
proof -
  have album: "sp_album ex_env [] (ustr ''/album/x'') = Inr (Some \<lparr>al_name = Some (ustr ''LP'')\<rparr>)"
    and name: "al_name \<lparr>al_name = Some (ustr ''LP'')\<rparr> = Some (ustr ''LP'')"
    and first: "sp_album_tracks ex_env ([] @ [SpAlbum (ustr ''/album/x'')]) (ustr ''/album/x'')
                  = Inr (Some ex_page1)"
    by (simp_all add: ex_env_def)
  have pages: "provider_pages ex_env
                 ([] @ [SpAlbum (ustr ''/album/x''), SpAlbumTracks (ustr ''/album/x'')])
                 ex_page1 [ex_page2]"
    by (rule ex_pages)
  from album_pagination_complete [OF ex_album_url album name first pages]
  show ?thesis
    using pages by (simp add: ex_page1_def ex_page2_def)
qed

subsection \<open>The batch\<close>

text \<open>
  C7, as amended. When the search for an item comes back with a non-zero exit status or
  with nothing but whitespace on its output, the iteration ends as \<open>NoYoutubeVideo\<close>
  (the specification's LocatorMiss); the search is the last call made for the item, so
  neither the directory is created nor the download function called; and the loop goes on
  with the next item from the history the search left.
\<close>

theorem locator_miss_skips_fetch:
  assumes "full_track_item env h track_item = (h1, Inr (Inr t))"
      and "subprocess_run env h1 (get_yt_url_command (search_query_of t)) = Inr r"
      and "returncode r \<noteq> 0 \<or> py_strip (stdout r) = []"
  shows "process_track_item env h base sim track_item =
           (h1 @ [SubprocessRun (get_yt_url_command (search_query_of t))], Inr NoYoutubeVideo) \<and>
         process_tracks env h base sim (track_item # rest) =
           (case process_tracks env (h1 @ [SubprocessRun (get_yt_url_command (search_query_of t))])
                   base sim rest of
              (h2, outcomes, raised) \<Rightarrow> (h2, NoYoutubeVideo # outcomes, raised))"
proof -
  have item: "process_track_item env h base sim track_item =
           (h1 @ [SubprocessRun (get_yt_url_command (search_query_of t))], Inr NoYoutubeVideo)"
    using assms by (auto simp: process_track_item_def process_full_track_def Let_def)
  then show ?thesis by simp
qed

text \<open>
  The search for track \<open>a\<close> of the small album misses: the history of the item is the
  lookup in the catalog and the search, and track \<open>b\<close> is downloaded after it.
\<close>

theorem locator_miss_skips_fetch_witness:
  "full_track_item ex_env_miss_second [] (ex_thin ''a'') =
     ([SpTrack (ustr ''a'')], Inr (Inr (ex_track ''a'' ''Song A'' (Some 1)))) \<and>
   subprocess_run ex_env_miss_second [SpTrack (ustr ''a'')]
     (get_yt_url_command (search_query_of (ex_track ''a'' ''Song A'' (Some 1)))) = Inr ex_not_found \<and>
   returncode ex_not_found \<noteq> 0 \<and>
   process_track_item ex_env_miss_second [] (ustr ''/dl'') True (ex_thin ''a'') =
     ([SpTrack (ustr ''a''),
       SubprocessRun (get_yt_url_command (search_query_of (ex_track ''a'' ''Song A'' (Some 1))))],
      Inr NoYoutubeVideo) \<and>
   snd (process_tracks ex_env_miss_second [] (ustr ''/dl'') True [ex_thin ''a'', ex_thin ''b'']) =
     ([NoYoutubeVideo, DownloadReturned (Some (ustr ''/dl/Music/Band/LP/02 - Song B.mp3''))], None)"
proof -
  let ?t = "ex_track ''a'' ''Song A'' (Some 1)"
  have full: "full_track_item ex_env_miss_second [] (ex_thin ''a'') =
                ([SpTrack (ustr ''a'')], Inr (Inr ?t))"
    by (simp add: full_track_item_def env_eval ustr_def)
  have search: "subprocess_run ex_env_miss_second [SpTrack (ustr ''a'')]
                  (get_yt_url_command (search_query_of ?t)) = Inr ex_not_found"
    by (simp add: ex_env_miss_second_def)
  have miss: "returncode ex_not_found \<noteq> 0 \<or> py_strip (stdout ex_not_found) = []"
    by (simp add: ex_not_found_def)
  have "snd (process_tracks ex_env_miss_second
            [SpTrack (ustr ''a''), SubprocessRun (get_yt_url_command (search_query_of ?t))]
            (ustr ''/dl'') True [ex_thin ''b'']) =
       ([DownloadReturned (Some (ustr ''/dl/Music/Band/LP/02 - Song B.mp3''))], None)"
    by (simp add: flow_eval env_eval track_eval string_eval)
  then obtain h2 where next_item:
    "process_tracks ex_env_miss_second
            [SpTrack (ustr ''a''), SubprocessRun (get_yt_url_command (search_query_of ?t))]
            (ustr ''/dl'') True [ex_thin ''b''] =
       (h2, [DownloadReturned (Some (ustr ''/dl/Music/Band/LP/02 - Song B.mp3''))], None)"
    by (metis prod.collapse)
  from locator_miss_skips_fetch [OF full search miss, of "ustr ''/dl''" True "[ex_thin ''b'']"]
  show ?thesis
    using full search next_item
    by (simp add: ex_not_found_def del: process_tracks.simps)
qed

text \<open>
  The claim as the specification states it fails when the search fails by raising. In the
  batch of the small album the first track is downloaded; at the search for track \<open>a\<close>,
  the second item, \<open>subprocess.run\<close> raises \<open>OSError\<close>: the iteration has no
  outcome (it is not a \<open>NoYoutubeVideo\<close>), the exception leaves the loop, and track
  \<open>b\<close>, the next item, is not processed: the history ends with the search.
\<close>

theorem search_raises_counterexample:
  "process_tracks ex_env_search_raises ex_history (ustr ''/dl'') True
          [ex_thin ''i'', ex_thin ''a'', ex_thin ''b''] =
     (ex_history @
        [SpTrack (ustr ''i''),
         SubprocessRun (get_yt_url_command (ustr ''Intro Band audio'')),
         MakeDirs (ustr ''/dl/Music/Band/LP''), MakeDirs (ustr ''/dl/Music/Band/LP''),
         OpenWrite (ustr ''/dl/Music/Band/LP/01 - Intro.mp3'')
           (simulated_file_text (ustr ''01 - Intro'') (ustr ''u'')),
         SpTrack (ustr ''a''),
         SubprocessRun (get_yt_url_command (ustr ''Song A Band audio''))],
      [DownloadReturned (Some (ustr ''/dl/Music/Band/LP/01 - Intro.mp3''))],
      Some OSError)"
  by (rule ex_album_search_raises)

text \<open>
  C1, as amended. \<open>process_spotify_link\<close> returns no Run Report: whenever a call
  returns, on whichever of its paths, the value it returns to its caller is \<open>None\<close>,
  whatever became of the items.
\<close>

theorem process_spotify_link_returns_none:
  "process_spotify_link env h url base sim ff = Some r \<Longrightarrow> run_returned r = None"
  by (auto simp: process_spotify_link_def
           split: if_splits option.splits prod.splits sum.splits)

text \<open>The simulated run over the small album returns, and returns \<open>None\<close>.\<close>

theorem process_spotify_link_returns_none_witness:
  "process_spotify_link ex_env [] (ustr ''/album/x'') (ustr ''/dl'') True True \<noteq> None \<and>
   run_returned (the (process_spotify_link ex_env [] (ustr ''/album/x'') (ustr ''/dl'') True True))
     = None"
proof -
  obtain r
    where r: "process_spotify_link ex_env [] (ustr ''/album/x'') (ustr ''/dl'') True True = Some r"
    by (simp add: ex_run)
  from process_spotify_link_returns_none [OF r] r show ?thesis by simp
qed

text \<open>
  The claim as the specification states it fails: in the simulated run over the small
  album all three items are attempted and each download returns its path, no exception
  is caught, and the caller receives \<open>None\<close>: no sequence of outcomes and no counts.
\<close>

theorem run_report_counterexample:
  "map_option run_outcomes
     (process_spotify_link ex_env [] (ustr ''/album/x'') (ustr ''/dl'') True True) =
     Some [DownloadReturned (Some (ustr ''/dl/Music/Band/LP/01 - Intro.mp3'')),
           DownloadReturned (Some (ustr ''/dl/Music/Band/LP/01 - Song A.mp3'')),
           DownloadReturned (Some (ustr ''/dl/Music/Band/LP/02 - Song B.mp3''))] \<and>
   map_option run_caught
     (process_spotify_link ex_env [] (ustr ''/album/x'') (ustr ''/dl'') True True) = Some None \<and>
   map_option run_returned
     (process_spotify_link ex_env [] (ustr ''/album/x'') (ustr ''/dl'') True True) = Some None"
  by (simp add: ex_run ex_batch_simulated del: process_tracks.simps)




end
